theory Spec2Isabelle
  imports Complex_Main
begin

section \<open>JavaScript values used by the pipeline\<close>

text \<open>
  A JavaScript \<open>number\<close> that holds an integer is an \<open>int\<close> (or a \<open>nat\<close> for a count
  that starts at 0 and only grows); \<open>NaN\<close> is \<open>None\<close> of an option type where the code
  can produce it. Arithmetic is exact: the doubles of the program are idealised as
  integers and rationals, which agrees with the program below \<open>2 ^ 53\<close>.
  \<open>null\<close> and \<open>undefined\<close> are \<open>None\<close>.
\<close>

text \<open>\<open>v || d\<close> on a string that may be missing: the empty string is falsy.\<close>

definition orElse :: "string option \<Rightarrow> string \<Rightarrow> string" where
  "orElse v d = (case v of None \<Rightarrow> d | Some s \<Rightarrow> if s = [] then d else s)"

definition isDigit :: "char \<Rightarrow> bool" where
  "isDigit c = (48 \<le> (of_char c :: nat) \<and> (of_char c :: nat) \<le> 57)"

definition isSpace :: "char \<Rightarrow> bool" where
  "isSpace c = ((of_char c :: nat) \<in> {9, 10, 11, 12, 13, 32})"

definition digitVal :: "char \<Rightarrow> nat" where
  "digitVal c = (of_char c :: nat) - 48"

text \<open>
  \<open>parseInt(s, 10)\<close>: leading white space is skipped, one sign is read, then the
  longest run of decimal digits; with no digit the result is \<open>NaN\<close>.
\<close>

definition parseInt :: "string \<Rightarrow> int option" where
  "parseInt s =
     (let t = dropWhile isSpace s;
          neg = (case t of [] \<Rightarrow> False | c # _ \<Rightarrow> c = CHR ''-'');
          u = (case t of [] \<Rightarrow> [] | c # r \<Rightarrow> if c = CHR ''-'' \<or> c = CHR ''+'' then r else t);
          ds = takeWhile isDigit u;
          n = foldl (\<lambda>a c. 10 * a + int (digitVal c)) 0 ds
      in if ds = [] then None else Some (if neg then - n else n))"

section \<open>Phase classifier (lunar.ts)\<close>

text \<open>
  A \<open>Date\<close> is its time value: integer milliseconds since the Unix epoch, or \<open>NaN\<close>
  (\<open>None\<close>) for an invalid date such as \<open>new Date('')\<close>.
\<close>

type_synonym js_date = "int option"

text \<open>\<open>new Date('2000-01-01T00:00:00.000Z').getTime()\<close>\<close>

definition knownNewMoon :: int where
  "knownNewMoon = 946684800000"

definition lunarCycle :: rat where
  "lunarCycle = 2953058867 / 100000000"

text \<open>JavaScript \<open>%\<close>: the remainder of the truncated division, with the sign of the dividend.\<close>

definition jsTrunc :: "rat \<Rightarrow> int" where
  "jsTrunc x = (if 0 \<le> x then \<lfloor>x\<rfloor> else - \<lfloor>- x\<rfloor>)"

definition jsRem :: "rat \<Rightarrow> rat \<Rightarrow> rat" where
  "jsRem a b = a - b * of_int (jsTrunc (a / b))"

definition daysSinceNewMoon :: "int \<Rightarrow> rat" where
  "daysSinceNewMoon t = of_int (t - knownNewMoon) / (1000 * 60 * 60 * 24)"

text \<open>The local \<open>phase\<close> of \<open>getLunarPhase\<close>; \<open>None\<close> is \<open>NaN\<close>.\<close>

definition phaseFraction :: "js_date \<Rightarrow> rat option" where
  "phaseFraction d =
     (case d of None \<Rightarrow> None
      | Some t \<Rightarrow> Some (jsRem (daysSinceNewMoon t) lunarCycle / lunarCycle))"

text \<open>Every comparison with \<open>NaN\<close> is false, so an invalid date reaches the last \<open>return\<close>.\<close>

definition getLunarPhase :: "js_date \<Rightarrow> string" where
  "getLunarPhase d =
     (case phaseFraction d of
        None \<Rightarrow> ''Waning Crescent''
      | Some phase \<Rightarrow>
          if phase < 625 / 10000 \<or> phase \<ge> 9375 / 10000 then ''New Moon''
          else if phase < 1875 / 10000 then ''Waxing Crescent''
          else if phase < 3125 / 10000 then ''First Quarter''
          else if phase < 4375 / 10000 then ''Waxing Gibbous''
          else if phase < 5625 / 10000 then ''Full Moon''
          else if phase < 6875 / 10000 then ''Waning Gibbous''
          else if phase < 8125 / 10000 then ''Last Quarter''
          else ''Waning Crescent'')"

text \<open>The \<open>name\<close> fields of \<open>LUNAR_PHASES\<close>, in order.\<close>

definition LUNAR_PHASE_NAMES :: "string list" where
  "LUNAR_PHASE_NAMES =
     [''New Moon'', ''Waxing Crescent'', ''First Quarter'', ''Waxing Gibbous'',
      ''Full Moon'', ''Waning Gibbous'', ''Last Quarter'', ''Waning Crescent'']"

section \<open>Rate limiter settings (github.ts)\<close>

record limiter =
  maxConcurrent :: nat
  minTime :: "int option"
  reservoir :: int
  reservoirRefreshAmount :: int
  reservoirRefreshInterval :: int

text \<open>The settings the module creates its \<open>Bottleneck\<close> with.\<close>

definition limiter0 :: limiter where
  "limiter0 = \<lparr> maxConcurrent = 1, minTime = Some 250, reservoir = 1000,
     reservoirRefreshAmount = 1000, reservoirRefreshInterval = 60 * 60 * 1000 \<rparr>"

record response_headers =
  x_ratelimit_remaining :: "string option"
  x_ratelimit_reset :: "string option"

text \<open>
  \<open>updateRateLimits\<close>, with the reading of \<open>Date.now()\<close> as the argument \<open>nowMs\<close> and
  the limiter passed and returned. \<open>remaining > 0\<close> and \<open>resetInMs > 0\<close> are false on
  \<open>NaN\<close>; \<open>Math.max\<close> and \<open>Math.floor\<close> give \<open>NaN\<close> on \<open>NaN\<close>.
\<close>

definition updateRateLimits :: "int \<Rightarrow> response_headers \<Rightarrow> limiter \<Rightarrow> limiter" where
  "updateRateLimits nowMs h l =
     (let remaining = parseInt (orElse (x_ratelimit_remaining h) ''0'');
          reset = parseInt (orElse (x_ratelimit_reset h) ''0'');
          now = nowMs div 1000;
          resetInMs = map_option (\<lambda>r. (r - now) * 1000) reset
      in case remaining of
           None \<Rightarrow> l
         | Some rem \<Rightarrow>
             if rem > 0 then
               l\<lparr> minTime := map_option (\<lambda>ms. max 1000 (ms div rem)) resetInMs,
                  reservoir := rem \<rparr>
             else (case resetInMs of
                     None \<Rightarrow> l
                   | Some ms \<Rightarrow>
                       if ms > 0 then
                         l\<lparr> reservoir := 0, reservoirRefreshAmount := 5000,
                            reservoirRefreshInterval := ms \<rparr>
                       else l))"

section \<open>Data of the commit pipeline (github.ts)\<close>

record github_email =
  email :: string
  verified :: bool

text \<open>
  One element of the commit listing. \<open>authorEmail\<close> is \<open>commit.commit.author?.email\<close>,
  \<open>authorLogin\<close> is \<open>commit.author?.login\<close>, \<open>authorDate\<close> is
  \<open>commit.commit.author?.date || ''\<close> and \<open>authorTime\<close> is the time value of
  \<open>new Date(authorDate)\<close>.
\<close>

record commit =
  sha :: string
  commitMessage :: string
  authorEmail :: "string option"
  authorLogin :: "string option"
  authorDate :: string
  authorTime :: js_date

text \<open>\<open>data.stats\<close> of a \<open>getCommit\<close> response.\<close>

record diff_stats =
  additions :: nat
  deletions :: nat
  total :: nat

text \<open>
  The promise of one \<open>getCommit\<close> call: rejected, or fulfilled with a response whose
  \<open>stats\<close> may be missing.
\<close>

datatype detail_result = Rejected | Fulfilled "diff_stats option"

record http_error =
  status :: "nat option"
  resetHeader :: "string option"
  errorMessage :: string

text \<open>
  A repository of the listing, together with what the remote answers for it during
  the run: \<open>listing\<close> is the outcome of the paginated commit listing, each commit paired
  with the outcome of its own \<open>getCommit\<close> call, and \<open>nowAtCatch\<close> is the reading of
  \<open>Date.now()\<close> in the \<open>catch\<close> block of the repository.
\<close>

record repo =
  fullName :: string
  fork :: bool
  listing :: "http_error + (commit \<times> detail_result) list"
  nowAtCatch :: int

record time_of_day =
  dawn :: nat
  day :: nat
  dusk :: nat
  night :: nat

record largest_commit =
  lcPhase :: string
  lcSize :: nat
  lcMessage :: string
  lcDate :: string

text \<open>
  \<open>CommitStats\<close>. A \<open>Record<string, number>\<close> is an association list in insertion
  order, as the keys of a JavaScript object are; its keys are distinct.
\<close>

record commit_stats =
  commitsByPhase :: "(string \<times> nat) list"
  averageCommitSize :: "(string \<times> nat) list"
  timeOfDay :: time_of_day
  largestCommit :: largest_commit
  totalAdditions :: nat
  totalDeletions :: nat

definition stats0 :: commit_stats where
  "stats0 = \<lparr> commitsByPhase = [], averageCommitSize = [],
     timeOfDay = \<lparr> dawn = 0, day = 0, dusk = 0, night = 0 \<rparr>,
     largestCommit = \<lparr> lcPhase = [], lcSize = 0, lcMessage = [], lcDate = [] \<rparr>,
     totalAdditions = 0, totalDeletions = 0 \<rparr>"

text \<open>\<open>obj[k] = v\<close>: an existing key keeps its place, a new key goes last.\<close>

fun objSet :: "string \<Rightarrow> nat \<Rightarrow> (string \<times> nat) list \<Rightarrow> (string \<times> nat) list" where
  "objSet k v [] = [(k, v)]"
| "objSet k v (p # ps) = (if fst p = k then (k, v) # ps else p # objSet k v ps)"

text \<open>\<open>obj[k] || d\<close>: a missing key and a stored 0 both give \<open>d\<close>.\<close>

definition objGetOr :: "(string \<times> nat) list \<Rightarrow> string \<Rightarrow> nat \<Rightarrow> nat" where
  "objGetOr obj k d = (case map_of obj k of None \<Rightarrow> d | Some v \<Rightarrow> if v = 0 then d else v)"

subsection \<open>Progress publication\<close>

text \<open>The \<open>stats\<close> object of a progress publication.\<close>

record snapshot =
  snapCommitsByPhase :: "(string \<times> nat) list"
  snapTimeOfDay :: time_of_day
  snapTotalCommits :: nat

text \<open>The message-only publications of \<open>fetchUserCommits\<close>, by their template.\<close>

datatype message =
    Starting string
  | FetchingEmails
  | FoundEmails nat
  | FetchingRepos
  | FoundRepos nat
  | AnalysisComplete
  | ErrorMessage string

text \<open>
  What a run does that an observer or the remote can see, in order. \<open>Message\<close>,
  \<open>RepoProgress\<close> and \<open>CommitProgress\<close> are calls of \<open>sendProgress\<close> that reached the
  stream: \<open>RepoProgress current total stats\<close> is the publication at the start of a
  repository and \<open>CommitProgress current total stats\<close> the one after every fifth commit
  (both carry the text \<open>Analyzing repositories\<close>; the percentage is computed from
  \<open>current\<close> and \<open>total\<close> and is left out). \<open>ListCommits\<close> is the request for the commit
  listing of a repository and \<open>Sleep\<close> the \<open>setTimeout\<close> wait of the \<open>catch\<close> block.
\<close>

datatype event =
    Message message
  | RepoProgress nat nat snapshot
  | CommitProgress nat nat snapshot
  | ListCommits string
  | Sleep int

text \<open>
  What is fixed during the repository loop: the target user, the verified emails, the
  number of repositories, whether \<open>global.progressController\<close> is set, and the offset
  of local time from UTC in milliseconds at an instant, which \<open>getHours\<close> needs.
\<close>

record env =
  username :: string
  userEmails :: "string list"
  totalRepos :: nat
  controller :: bool
  tzOffset :: "int \<Rightarrow> int"

record run_state =
  stats :: commit_stats
  processedRepos :: nat
  totalCommits :: nat
  trace :: "event list"

text \<open>
  \<open>sendProgress\<close> writes only when a controller is set; \<open>ctl\<close> says whether
  \<open>global.progressController\<close> is.
\<close>

definition sendProgress :: "bool \<Rightarrow> event \<Rightarrow> run_state \<Rightarrow> run_state" where
  "sendProgress ctl ev st = (if ctl then st\<lparr> trace := trace st @ [ev] \<rparr> else st)"

definition snapshotOf :: "run_state \<Rightarrow> snapshot" where
  "snapshotOf st = \<lparr> snapCommitsByPhase = commitsByPhase (stats st),
     snapTimeOfDay = timeOfDay (stats st), snapTotalCommits = totalCommits st \<rparr>"

subsection \<open>The author filter\<close>

definition GITHUB_SYSTEM_AUTHORS :: "string list" where
  "GITHUB_SYSTEM_AUTHORS =
     [''noreply@github.com'', ''actions@github.com'', ''github-actions[bot]'',
      ''web-flow'', ''dependabot[bot]'']"

text \<open>\<open>v && xs.includes(v)\<close>, as a condition.\<close>

definition includesTruthy :: "string list \<Rightarrow> string option \<Rightarrow> bool" where
  "includesTruthy xs v = (case v of None \<Rightarrow> False | Some s \<Rightarrow> s \<noteq> [] \<and> s \<in> set xs)"

text \<open>The callback of \<open>commits.filter\<close>.\<close>

definition isUserCommit :: "string \<Rightarrow> string list \<Rightarrow> commit \<Rightarrow> bool" where
  "isUserCommit user emails c =
     (if includesTruthy GITHUB_SYSTEM_AUTHORS (authorEmail c) then False
      else if includesTruthy GITHUB_SYSTEM_AUTHORS (authorLogin c) then False
      else (authorLogin c = Some user \<or> includesTruthy emails (authorEmail c)))"

section \<open>The aggregator and the repository loop (fetchUserCommits)\<close>

text \<open>\<open>date.getHours()\<close>: the local hour, \<open>NaN\<close> for an invalid date.\<close>

definition getHours :: "(int \<Rightarrow> int) \<Rightarrow> js_date \<Rightarrow> nat option" where
  "getHours tz d = map_option (\<lambda>t. nat (((t + tz t) div 3600000) mod 24)) d"

text \<open>The time-of-day chain; on \<open>NaN\<close> every comparison fails and \<open>night\<close> is counted.\<close>

definition countTimeOfDay :: "nat option \<Rightarrow> time_of_day \<Rightarrow> time_of_day" where
  "countTimeOfDay hour t =
     (case hour of
        None \<Rightarrow> t\<lparr> night := night t + 1 \<rparr>
      | Some h \<Rightarrow>
          if h \<ge> 4 \<and> h < 8 then t\<lparr> dawn := dawn t + 1 \<rparr>
          else if h \<ge> 8 \<and> h < 16 then t\<lparr> day := day t + 1 \<rparr>
          else if h \<ge> 16 \<and> h < 20 then t\<lparr> dusk := dusk t + 1 \<rparr>
          else t\<lparr> night := night t + 1 \<rparr>)"

text \<open>The body of the first loop over \<open>userCommits\<close> (phase, time of day, publication).\<close>

definition basicStep :: "env \<Rightarrow> run_state \<Rightarrow> commit \<Rightarrow> run_state" where
  "basicStep e st c =
     (let date = authorTime c;
          phase = getLunarPhase date;
          hour = getHours (tzOffset e) date;
          s = stats st;
          s1 = s\<lparr> commitsByPhase :=
                  objSet phase (objGetOr (commitsByPhase s) phase 0 + 1) (commitsByPhase s) \<rparr>;
          s2 = s1\<lparr> timeOfDay := countTimeOfDay hour (timeOfDay s1) \<rparr>;
          st1 = st\<lparr> stats := s2, totalCommits := totalCommits st + 1 \<rparr>
      in if totalCommits st1 mod 5 = 0
         then sendProgress (controller e)
                (CommitProgress (processedRepos st1) (totalRepos e) (snapshotOf st1)) st1
         else st1)"

fun basicLoop :: "env \<Rightarrow> commit list \<Rightarrow> run_state \<Rightarrow> run_state" where
  "basicLoop e [] st = st"
| "basicLoop e (c # cs) st = basicLoop e cs (basicStep e st c)"

text \<open>
  The body of the loop over the results of a batch, for one commit and its fulfilled
  response. \<open>detailedCommit.stats?.total\<close> is falsy when \<open>stats\<close> is missing or
  \<open>total\<close> is 0.
\<close>

definition detailStep :: "commit_stats \<Rightarrow> commit \<Rightarrow> diff_stats option \<Rightarrow> commit_stats" where
  "detailStep s c r =
     (case r of
        None \<Rightarrow> s
      | Some d \<Rightarrow>
          if total d = 0 then s
          else
            (let phase = getLunarPhase (authorTime c);
                 sz = total d;
                 a1 = objSet phase (objGetOr (averageCommitSize s) phase 0) (averageCommitSize s);
                 a2 = objSet phase (objGetOr a1 phase 0 + sz) a1;
                 s1 = s\<lparr> averageCommitSize := a2,
                         totalAdditions := totalAdditions s + additions d,
                         totalDeletions := totalDeletions s + deletions d \<rparr>
             in if sz > lcSize (largestCommit s1)
                then s1\<lparr> largestCommit :=
                          \<lparr> lcPhase = phase, lcSize = sz, lcMessage = commitMessage c,
                            lcDate = authorDate c \<rparr> \<rparr>
                else s1))"

text \<open>
  \<open>Promise.all\<close> over the calls of a batch: \<open>None\<close> when one of them is rejected,
  otherwise the responses in the order of the batch.
\<close>

fun promiseAll :: "(commit \<times> detail_result) list \<Rightarrow> (commit \<times> diff_stats option) list option" where
  "promiseAll [] = Some []"
| "promiseAll ((c, Rejected) # rest) = None"
| "promiseAll ((c, Fulfilled r) # rest) = map_option ((#) (c, r)) (promiseAll rest)"

fun foldResults :: "commit_stats \<Rightarrow> (commit \<times> diff_stats option) list \<Rightarrow> commit_stats" where
  "foldResults s [] = s"
| "foldResults s ((c, r) # rest) = foldResults (detailStep s c r) rest"

text \<open>
  One batch: when \<open>Promise.all\<close> rejects, no result is folded and the \<open>catch\<close> only
  logs.
\<close>

definition processBatch :: "commit_stats \<Rightarrow> (commit \<times> detail_result) list \<Rightarrow> commit_stats" where
  "processBatch s batch =
     (case promiseAll batch of None \<Rightarrow> s | Some results \<Rightarrow> foldResults s results)"

definition BATCH_SIZE :: nat where
  "BATCH_SIZE = 5"

text \<open>\<open>for (let i = 0; i < userCommits.length; i += BATCH_SIZE)\<close>, from index \<open>i\<close>.\<close>

function detailLoop :: "nat \<Rightarrow> (commit \<times> detail_result) list \<Rightarrow> commit_stats \<Rightarrow> commit_stats" where
  "detailLoop i cs s =
     (if i < length cs
      then detailLoop (i + BATCH_SIZE) cs (processBatch s (take BATCH_SIZE (drop i cs)))
      else s)"
  by pat_completeness auto
termination
  by (relation "measure (\<lambda>(i, cs, s). length cs - i)") (auto simp: BATCH_SIZE_def)

text \<open>
  The \<open>catch\<close> block of one repository. Every branch goes on to the next repository;
  the 403 branch first waits when \<open>resetIn > 0\<close> (false on \<open>NaN\<close>).
\<close>

definition catchRepoError :: "http_error \<Rightarrow> int \<Rightarrow> run_state \<Rightarrow> run_state" where
  "catchRepoError err nowMs st =
     (if status err = Some 404 then st
      else if status err = Some 403 then
        (case parseInt (orElse (resetHeader err) ''0'') of
           None \<Rightarrow> st
         | Some r \<Rightarrow>
             (let resetIn = r * 1000 - nowMs
              in if resetIn > 0 then st\<lparr> trace := trace st @ [Sleep resetIn] \<rparr> else st))
      else if status err = Some 409 then st
      else st)"

text \<open>The second loop of a repository: only the statistics are touched.\<close>

definition detailPass :: "(commit \<times> detail_result) list \<Rightarrow> run_state \<Rightarrow> run_state" where
  "detailPass userCommits st = st\<lparr> stats := detailLoop 0 userCommits (stats st) \<rparr>"

text \<open>The body of the loop over \<open>nonForkRepos\<close>.\<close>

definition processRepo :: "env \<Rightarrow> repo \<Rightarrow> run_state \<Rightarrow> run_state" where
  "processRepo e r st =
     (let st1 = st\<lparr> processedRepos := processedRepos st + 1 \<rparr>;
          st2 = sendProgress (controller e)
                  (RepoProgress (processedRepos st1) (totalRepos e) (snapshotOf st1)) st1;
          st3 = st2\<lparr> trace := trace st2 @ [ListCommits (fullName r)] \<rparr>
      in case listing r of
           Inl err \<Rightarrow> catchRepoError err (nowAtCatch r) st3
         | Inr commits \<Rightarrow>
             (let userCommits =
                    filter (\<lambda>p. isUserCommit (username e) (userEmails e) (fst p)) commits;
                  st4 = basicLoop e (map fst userCommits) st3
              in detailPass userCommits st4))"

fun repoLoop :: "env \<Rightarrow> repo list \<Rightarrow> run_state \<Rightarrow> run_state" where
  "repoLoop e [] st = st"
| "repoLoop e (r # rs) st = repoLoop e rs (processRepo e r st)"

text \<open>\<open>Math.round(a / c)\<close> on non-negative integers with \<open>c > 0\<close>: halves round up.\<close>

definition roundDiv :: "nat \<Rightarrow> nat \<Rightarrow> nat" where
  "roundDiv a c = (2 * a + c) div (2 * c)"

text \<open>The "Calculate averages" step over the keys of \<open>averageCommitSize\<close>.\<close>

definition finalize :: "commit_stats \<Rightarrow> commit_stats" where
  "finalize s =
     s\<lparr> averageCommitSize :=
          map (\<lambda>p. (fst p, roundDiv (snd p) (objGetOr (commitsByPhase s) (fst p) 1)))
            (averageCommitSize s) \<rparr>"

text \<open>
  The arguments of a run and the answers of the remote to its two first requests.
\<close>

record run_input =
  targetUser :: string
  observer :: bool
  localOffset :: "int \<Rightarrow> int"
  emailsResult :: "http_error + github_email list"
  reposResult :: "http_error + repo list"

definition state0 :: run_state where
  "state0 = \<lparr> stats = stats0, processedRepos = 0, totalCommits = 0, trace = [] \<rparr>"

definition envOf :: "run_input \<Rightarrow> github_email list \<Rightarrow> repo list \<Rightarrow> env" where
  "envOf inp emails nonForkRepos =
     \<lparr> username = targetUser inp,
       userEmails = map email (filter verified emails),
       totalRepos = length nonForkRepos,
       controller = observer inp,
       tzOffset = localOffset inp \<rparr>"

text \<open>
  \<open>fetchUserCommits\<close>: the result is the thrown error or the returned statistics,
  together with the trace of the run.
\<close>

definition fetchUserCommits :: "run_input \<Rightarrow> (http_error + commit_stats) \<times> event list" where
  "fetchUserCommits inp =
     (let pub = (\<lambda>m. sendProgress (observer inp) (Message m));
          st0 = pub FetchingEmails (pub (Starting (targetUser inp)) state0)
      in case emailsResult inp of
           Inl err \<Rightarrow> (Inl err, trace (pub (ErrorMessage (errorMessage err)) st0))
         | Inr emails \<Rightarrow>
             (let st1 = pub FetchingRepos
                          (pub (FoundEmails (length (filter verified emails))) st0)
              in case reposResult inp of
                   Inl err \<Rightarrow> (Inl err, trace (pub (ErrorMessage (errorMessage err)) st1))
                 | Inr repos \<Rightarrow>
                     (let nonForkRepos = filter (\<lambda>r. \<not> fork r) repos;
                          e = envOf inp emails nonForkRepos;
                          st2 = pub (FoundRepos (length nonForkRepos)) st1;
                          st3 = repoLoop e nonForkRepos st2;
                          st4 = st3\<lparr> stats := finalize (stats st3) \<rparr>;
                          st5 = pub AnalysisComplete st4
                      in (Inr (stats st5), trace st5))))"

section \<open>Properties stated by the specification\<close>

text \<open>A commit matches the denylist when its author email or its author login is on it.\<close>

definition onDenylist :: "commit \<Rightarrow> bool" where
  "onDenylist c =
     ((case authorEmail c of None \<Rightarrow> False | Some a \<Rightarrow> a \<in> set GITHUB_SYSTEM_AUTHORS) \<or>
      (case authorLogin c of None \<Rightarrow> False | Some a \<Rightarrow> a \<in> set GITHUB_SYSTEM_AUTHORS))"

text \<open>
  The allow check: the login is the target user's, or the email (a non-empty string) is
  one of the verified emails.
\<close>

definition ownedByUser :: "string \<Rightarrow> string list \<Rightarrow> commit \<Rightarrow> bool" where
  "ownedByUser user emails c =
     (authorLogin c = Some user \<or>
      (case authorEmail c of None \<Rightarrow> False | Some a \<Rightarrow> a \<noteq> [] \<and> a \<in> set emails))"

text \<open>The sum of the values of a \<open>Record<string, number>\<close>.\<close>

definition sumCounts :: "(string \<times> nat) list \<Rightarrow> nat" where
  "sumCounts obj = sum_list (map snd obj)"

text \<open>Projections of a trace: the listing requests, the waits, the publications.\<close>

definition listRequests :: "event list \<Rightarrow> string list" where
  "listRequests tr = concat (map (\<lambda>ev. case ev of ListCommits n \<Rightarrow> [n] | _ \<Rightarrow> []) tr)"

definition messages :: "event list \<Rightarrow> message list" where
  "messages tr = concat (map (\<lambda>ev. case ev of Message m \<Rightarrow> [m] | _ \<Rightarrow> []) tr)"

definition commitSnapshots :: "event list \<Rightarrow> snapshot list" where
  "commitSnapshots tr =
     concat (map (\<lambda>ev. case ev of CommitProgress _ _ s \<Rightarrow> [s] | _ \<Rightarrow> []) tr)"

definition allSnapshots :: "event list \<Rightarrow> snapshot list" where
  "allSnapshots tr =
     concat (map (\<lambda>ev. case ev of CommitProgress _ _ s \<Rightarrow> [s]
                             | RepoProgress _ _ s \<Rightarrow> [s] | _ \<Rightarrow> []) tr)"

definition consistent :: "snapshot \<Rightarrow> bool" where
  "consistent s = (sumCounts (snapCommitsByPhase s) = snapTotalCommits s)"

text \<open>
  The qualifying commits of a run, in the order of the first loop: the commits that
  pass the author filter, of the repositories whose listing succeeds.
\<close>

definition qualifyingCommits :: "env \<Rightarrow> repo list \<Rightarrow> commit list" where
  "qualifyingCommits e rs =
     concat (map (\<lambda>r. case listing r of
                          Inl err \<Rightarrow> []
                        | Inr commits \<Rightarrow>
                            filter (isUserCommit (username e) (userEmails e)) (map fst commits))
             rs)"

definition processedCommits :: "run_input \<Rightarrow> commit list" where
  "processedCommits inp =
     (case emailsResult inp of
        Inl err \<Rightarrow> []
      | Inr emails \<Rightarrow>
          (case reposResult inp of
             Inl err \<Rightarrow> []
           | Inr repos \<Rightarrow>
               qualifyingCommits (envOf inp emails (filter (\<lambda>r. \<not> fork r) repos))
                 (filter (\<lambda>r. \<not> fork r) repos)))"

section \<open>Concrete inputs\<close>

text \<open>A commit of the user \<open>alice\<close> whose author email is GitHub's no-reply address.\<close>

definition noreplyCommit :: commit where
  "noreplyCommit =
     \<lparr> sha = ''0a1b2c'', commitMessage = ''Update README.md'',
       authorEmail = Some ''noreply@github.com'', authorLogin = Some ''alice'',
       authorDate = ''2024-05-01T10:00:00Z'', authorTime = Some 1714557600000 \<rparr>"

text \<open>A commit of \<open>alice\<close> under her verified email.\<close>

definition aliceCommit :: commit where
  "aliceCommit =
     \<lparr> sha = ''3d4e5f'', commitMessage = ''Add parser'',
       authorEmail = Some ''alice@example.org'', authorLogin = Some ''alice'',
       authorDate = ''2024-05-02T10:00:00Z'', authorTime = Some 1714644000000 \<rparr>"

text \<open>
  Headers read at \<open>Date.now() = 1000000\<close> (second 1000): 10 calls remain and the reset
  is 5 seconds ahead; no call remains and the reset is 3 seconds ahead.
\<close>

definition headers10 :: response_headers where
  "headers10 = \<lparr> x_ratelimit_remaining = Some ''10'', x_ratelimit_reset = Some ''1005'' \<rparr>"

definition headers0 :: response_headers where
  "headers0 = \<lparr> x_ratelimit_remaining = Some ''0'', x_ratelimit_reset = Some ''1003'' \<rparr>"

text \<open>One day and fifteen days before the reference new moon (2000-01-01T00:00:00Z).\<close>

definition dayBeforeNewMoon :: int where
  "dayBeforeNewMoon = 946684800000 - 86400000"

definition fifteenDaysBeforeNewMoon :: int where
  "fifteenDaysBeforeNewMoon = 946684800000 - 15 * 86400000"

section \<open>Theorems\<close>

subsection \<open>Phase classifier\<close>

lemma getLunarPhase_label: "getLunarPhase d \<in> set LUNAR_PHASE_NAMES"
  by (simp add: getLunarPhase_def LUNAR_PHASE_NAMES_def split: option.split)

text \<open>
  C4. The claim: for every timestamp, also one before the reference new moon, the
  phase fraction lies in \<open>[0,1)\<close>. The code takes the JavaScript remainder, which has
  the sign of the dividend: one day before the reference new moon (1999-12-31T00:00Z)
  the fraction is \<open>- 1 / 29.53058867\<close>, a negative number, although the comment of
  the code announces a phase from 0 to 1.
\<close>

theorem C4_negative_fraction_before_epoch:
  "phaseFraction (Some dayBeforeNewMoon) = Some (- (100000000 / 2953058867))
   \<and> (- (100000000 / 2953058867) :: rat) < 0
   \<and> getLunarPhase (Some dayBeforeNewMoon) = ''New Moon''"
  by code_simp

text \<open>
  C5. The claim: the classifier returns one of the eight labels and is periodic with
  the synodic month. The label is always one of the eight (\<open>getLunarPhase_label\<close>),
  but the period fails across the reference new moon: fifteen days before it the
  fraction is negative and the label is New Moon, and one synodic month later
  (2551442861.088 ms, whichever way the millisecond is rounded) the label is Full Moon.
\<close>

theorem C5_not_periodic_before_epoch:
  "getLunarPhase (Some fifteenDaysBeforeNewMoon) = ''New Moon''
   \<and> getLunarPhase (Some (fifteenDaysBeforeNewMoon + 2551442861)) = ''Full Moon''
   \<and> getLunarPhase (Some (fifteenDaysBeforeNewMoon + 2551442862)) = ''Full Moon''"
  by code_simp

subsection \<open>Author filter\<close>

lemma empty_not_system_author: "[] \<notin> set GITHUB_SYSTEM_AUTHORS"
  by (simp add: GITHUB_SYSTEM_AUTHORS_def)

lemma includesTruthy_denylist:
  "includesTruthy GITHUB_SYSTEM_AUTHORS v =
     (case v of None \<Rightarrow> False | Some a \<Rightarrow> a \<in> set GITHUB_SYSTEM_AUTHORS)"
  using empty_not_system_author by (auto simp: includesTruthy_def split: option.split)

text \<open>
  C1, as stated, fails: a commit of the target user whose author email is on the
  denylist matches the allow check and is dropped all the same.
\<close>

theorem C1_counterexample:
  "onDenylist noreplyCommit \<and> ownedByUser ''alice'' [] noreplyCommit
   \<and> \<not> isUserCommit ''alice'' [] noreplyCommit"
  by (simp add: onDenylist_def ownedByUser_def isUserCommit_def includesTruthy_def
      noreplyCommit_def GITHUB_SYSTEM_AUTHORS_def)

text \<open>
  C1, amended: the denylist takes precedence over the allow check. The filter keeps a
  commit exactly when neither its author email nor its author login is on the
  denylist and the allow check (login equal to the target user, or email among the
  verified emails) succeeds.
\<close>

theorem C1_denylist_takes_precedence:
  "isUserCommit user emails c = (\<not> onDenylist c \<and> ownedByUser user emails c)"
  by (auto simp: isUserCommit_def includesTruthy_denylist onDenylist_def ownedByUser_def
      includesTruthy_def empty_not_system_author split: option.splits)

theorem C1_denylist_takes_precedence_witness:
  "isUserCommit ''alice'' [''alice@example.org''] aliceCommit
   \<and> \<not> isUserCommit ''alice'' [''alice@example.org''] noreplyCommit"
  using C1_denylist_takes_precedence [of "''alice''" "[''alice@example.org'']" aliceCommit]
    C1_denylist_takes_precedence [of "''alice''" "[''alice@example.org'']" noreplyCommit]
  by (simp add: onDenylist_def ownedByUser_def aliceCommit_def noreplyCommit_def
      GITHUB_SYSTEM_AUTHORS_def)

subsection \<open>Rate limiter\<close>

text \<open>
  C2, as stated, fails: with 10 calls remaining and the reset 5000 ms ahead the new
  minimum interval is 1000 ms, not 500 ms, because the code never goes below 1000.
\<close>

theorem C2_counterexample:
  "minTime (updateRateLimits 1000000 headers10 limiter0) = Some 1000
   \<and> minTime (updateRateLimits 1000000 headers10 limiter0) \<noteq> Some 500"
  by (simp add: updateRateLimits_def headers10_def limiter0_def orElse_def parseInt_def
      isSpace_def isDigit_def digitVal_def)

end
